theory Spec2Isabelle
  imports Complex_Main "HOL-Library.AList"
begin

section \<open>Document vectorization: text splitter and strategy evaluator\<close>

text \<open>
  A shallow embedding of \<^verbatim>\<open>text_splitter.py\<close> and \<^verbatim>\<open>strategy_evaluator.py\<close>.
  Python strings are lists of characters; the characters are the code points below 256.
  Python integers are \<open>int\<close>, lengths are \<open>nat\<close>. Python floats are real numbers, and the
  one non-number that the code can produce (the mean of an empty list) is kept as a
  value of its own, see \<open>np_float\<close>. Exceptions are values of type \<open>error\<close>, and a function
  that can raise returns \<open>error + 'a\<close>. Progress narration (\<^verbatim>\<open>print\<close>) is left out.
\<close>

subsection \<open>Exceptions\<close>

datatype error =
    ValueError string
  | ZeroDivisionError
  | KeyError string

subsection \<open>Python string and list primitives\<close>

text \<open>
  \<^verbatim>\<open>str.strip()\<close> and the regular expression class \<^verbatim>\<open>\s\<close> use the same test on a
  character; below 256 it holds for tab, line feed, vertical tab, form feed, carriage
  return, the four separators 28 to 31, space, 133 and 160.
\<close>

definition isspace :: "char \<Rightarrow> bool" where
  "isspace c =
     (let n = (of_char c :: nat)
      in (9 \<le> n \<and> n \<le> 13) \<or> (28 \<le> n \<and> n \<le> 31) \<or> n = 32 \<or> n = 133 \<or> n = 160)"

definition strip :: "string \<Rightarrow> string" where
  "strip s = rev (dropWhile isspace (rev (dropWhile isspace s)))"

text \<open>A slice bound is clamped as Python does: a negative bound counts from the end.\<close>

definition slice_index :: "nat \<Rightarrow> int \<Rightarrow> nat" where
  "slice_index n i =
     (if i < 0 then (if i + int n < 0 then 0 else nat (i + int n))
      else if int n < i then n else nat i)"

definition py_slice :: "'a list \<Rightarrow> int \<Rightarrow> int \<Rightarrow> 'a list" where
  "py_slice xs start stop =
     (let s = slice_index (length xs) start; e = slice_index (length xs) stop
      in take (e - s) (drop s xs))"

text \<open>\<^verbatim>\<open>sep.join(xs)\<close>\<close>

fun join :: "string \<Rightarrow> string list \<Rightarrow> string" where
  "join sep [] = []"
| "join sep [x] = x"
| "join sep (x # y # ys) = x @ sep @ join sep (y # ys)"

text \<open>\<^verbatim>\<open>range(start, stop, step)\<close>, which raises for a zero step.\<close>

definition py_range :: "int \<Rightarrow> int \<Rightarrow> int \<Rightarrow> error + int list" where
  "py_range start stop step =
     (if step = 0 then Inl (ValueError ''range() arg 3 must not be zero'')
      else if 0 < step then
        Inr (map (\<lambda>j. start + int j * step) [0 ..< nat ((stop - start + step - 1) div step)])
      else
        Inr (map (\<lambda>j. start + int j * step) [0 ..< nat ((start - stop - step - 1) div (- step))]))"

subsection \<open>Result records\<close>

text \<open>
  \<^verbatim>\<open>EmbeddingResult\<close> (of \<^verbatim>\<open>embedding_generator.py\<close>), \<^verbatim>\<open>ChunkResult\<close> and
  \<^verbatim>\<open>StrategyMetrics\<close> share field names; a later record takes the short name, the
  earlier one is written with its record name in front.
\<close>

record EmbeddingResult =
  embeddings :: "real list list"
  chunks :: "string list"
  strategy :: string
  dimension :: nat
  total_chunks :: nat

record ChunkResult =
  chunks :: "string list"
  strategy :: string
  num_chunks :: nat
  avg_chunk_size :: real

text \<open>
  A float of numpy: a number, or the not-a-number that \<^verbatim>\<open>np.mean\<close> and
  \<^verbatim>\<open>np.std\<close> return (with a warning, without raising) for an empty list.
\<close>

datatype np_float = Finite real | NaN

record StrategyMetrics =
  strategy_name :: string
  num_chunks :: nat
  avg_chunk_size :: np_float
  chunk_size_std :: np_float
  avg_similarity :: real
  coverage_score :: real
  total_score :: np_float

subsection \<open>The splitter\<close>

text \<open>\<^verbatim>\<open>sum(len(c) for c in chunks) / len(chunks) if chunks else 0\<close>\<close>

definition avg_size_of :: "string list \<Rightarrow> real" where
  "avg_size_of cs =
     (if cs \<noteq> [] then real (sum_list (map length cs)) / real (length cs) else 0)"

text \<open>
  The \<^verbatim>\<open>while start < text_length\<close> loop of \<^verbatim>\<open>fixed_size_with_overlap\<close>. Nothing in
  the loop itself makes it stop, so it runs on fuel: one unit per iteration, and \<open>None\<close>
  when the fuel is used up before the loop condition fails.
\<close>

fun fixed_size_loop ::
  "nat \<Rightarrow> string \<Rightarrow> int \<Rightarrow> int \<Rightarrow> int \<Rightarrow> string list \<Rightarrow> string list option" where
  "fixed_size_loop fuel text chunk_size overlap start acc =
     (if start < int (length text) then
        (case fuel of
           0 \<Rightarrow> None
         | Suc f \<Rightarrow>
             (let chunk = strip (py_slice text start (start + chunk_size))
              in fixed_size_loop f text chunk_size overlap (start + (chunk_size - overlap))
                   (if chunk \<noteq> [] then acc @ [chunk] else acc)))
      else Some acc)"

definition fixed_size_with_overlap ::
  "nat \<Rightarrow> string \<Rightarrow> int \<Rightarrow> int \<Rightarrow> (error + ChunkResult) option" where
  "fixed_size_with_overlap fuel text chunk_size overlap =
     (if chunk_size \<le> overlap then Some (Inl (ValueError ''Overlap must be smaller than chunk_size''))
      else
        (case fixed_size_loop fuel text chunk_size overlap 0 [] of
           None \<Rightarrow> None
         | Some cs \<Rightarrow>
             Some (Inr \<lparr>chunks = cs, strategy = ''fixed_size_with_overlap'',
                        ChunkResult.num_chunks = length cs,
                        ChunkResult.avg_chunk_size = avg_size_of cs\<rparr>)))"

text \<open>
  \<^verbatim>\<open>re.split(r'(?<=[.!?])\s+', text)\<close>. A separator is a maximal run of whitespace whose
  first character follows one of the three terminators. The first argument holds the
  characters of the piece read so far, last one first; it is empty at the start of the
  text and right after a separator, where the preceding character is absent or is
  whitespace, so that no separator can begin there.
\<close>

definition terminator :: "char \<Rightarrow> bool" where
  "terminator c = (c = CHR ''.'' \<or> c = CHR ''!'' \<or> c = CHR ''?'')"

function split_sentences :: "string \<Rightarrow> string \<Rightarrow> string list" where
  "split_sentences cur [] = [rev cur]"
| "split_sentences cur (c # cs) =
     (if isspace c \<and> cur \<noteq> [] \<and> terminator (hd cur)
      then rev cur # split_sentences [] (dropWhile isspace cs)
      else split_sentences (c # cur) cs)"
  by pat_completeness auto
termination
  by (relation "measure (\<lambda>(cur, s). length s)")
     (auto simp: less_Suc_eq_le length_dropWhile_le)

definition sentences_of :: "string \<Rightarrow> string list" where
  "sentences_of text = map strip (filter (\<lambda>s. strip s \<noteq> []) (split_sentences [] text))"

definition sentence_based_splitting :: "string \<Rightarrow> int \<Rightarrow> error + ChunkResult" where
  "sentence_based_splitting text sentences_per_chunk =
     (let sentences = sentences_of text
      in case py_range 0 (int (length sentences)) sentences_per_chunk of
           Inl e \<Rightarrow> Inl e
         | Inr idxs \<Rightarrow>
             (let cs = filter (\<lambda>c. c \<noteq> [])
                         (map (\<lambda>i. join '' '' (py_slice sentences i (i + sentences_per_chunk))) idxs)
              in Inr \<lparr>chunks = cs, strategy = ''sentence_based'',
                      ChunkResult.num_chunks = length cs,
                        ChunkResult.avg_chunk_size = avg_size_of cs\<rparr>))"

text \<open>
  \<^verbatim>\<open>re.split(r'\n\s*\n', text)\<close>. A separator starts at a line feed and, since
  \<^verbatim>\<open>\s*\<close> is greedy and a line feed is itself whitespace, ends at the last line feed
  of the whitespace run that follows; there is none when that run holds no line feed.
\<close>

definition after_last_newline :: "string \<Rightarrow> string" where
  "after_last_newline ws = rev (takeWhile (\<lambda>x. x \<noteq> CHR 0x0A) (rev ws))"

function split_paragraphs :: "string \<Rightarrow> string \<Rightarrow> string list" where
  "split_paragraphs cur [] = [rev cur]"
| "split_paragraphs cur (c # cs) =
     (if c = CHR 0x0A \<and> CHR 0x0A \<in> set (takeWhile isspace cs)
      then rev cur #
           split_paragraphs [] (after_last_newline (takeWhile isspace cs) @ dropWhile isspace cs)
      else split_paragraphs (c # cur) cs)"
  by pat_completeness auto
termination
proof (relation "measure (\<lambda>(cur, s). length s)")
  fix cur :: string and c :: char and cs :: string
  have "length (after_last_newline (takeWhile isspace cs)) \<le> length (takeWhile isspace cs)"
    unfolding after_last_newline_def length_rev
    by (rule order_trans [OF length_takeWhile_le]) simp
  moreover have "length (takeWhile isspace cs) + length (dropWhile isspace cs) = length cs"
    by (metis length_append takeWhile_dropWhile_id)
  ultimately show
    "((([], after_last_newline (takeWhile isspace cs) @ dropWhile isspace cs)), (cur, c # cs))
       \<in> measure (\<lambda>(cur, s). length s)"
    by simp
qed auto

text \<open>The \<^verbatim>\<open>for para in paragraphs\<close> loop; \<^verbatim>\<open>chunks[-1] += " " + para\<close> extends the last chunk.\<close>

fun paragraph_loop :: "int \<Rightarrow> string list \<Rightarrow> string list \<Rightarrow> string list" where
  "paragraph_loop min_paragraph_length [] acc = acc"
| "paragraph_loop min_paragraph_length (p # ps) acc =
     (let para = strip p
      in paragraph_loop min_paragraph_length ps
           (if min_paragraph_length \<le> int (length para) then acc @ [para]
            else if acc \<noteq> [] then butlast acc @ [last acc @ '' '' @ para]
            else acc))"

definition paragraph_based_splitting :: "string \<Rightarrow> int \<Rightarrow> ChunkResult" where
  "paragraph_based_splitting text min_paragraph_length =
     (let cs0 = paragraph_loop min_paragraph_length (split_paragraphs [] text) [];
          cs = (if cs0 = [] \<and> strip text \<noteq> [] then [strip text] else cs0)
      in \<lparr>chunks = cs, strategy = ''paragraph_based'',
          ChunkResult.num_chunks = length cs,
          ChunkResult.avg_chunk_size = avg_size_of cs\<rparr>)"

text \<open>
  \<^verbatim>\<open>split_all_strategies\<close>: the three strategies with their default parameters, stored
  in a dictionary. A Python dictionary keeps its keys in insertion order; it is an
  association list here, and \<open>AList.update\<close> is the assignment \<^verbatim>\<open>d[k] = v\<close> (a new key
  goes to the end, an old key keeps its place).
\<close>

definition split_all_strategies ::
  "nat \<Rightarrow> string \<Rightarrow> (error + (string \<times> ChunkResult) list) option" where
  "split_all_strategies fuel text =
     (case fixed_size_with_overlap fuel text 500 50 of
        None \<Rightarrow> None
      | Some (Inl e) \<Rightarrow> Some (Inl e)
      | Some (Inr fixed_result) \<Rightarrow>
          (case sentence_based_splitting text 5 of
             Inl e \<Rightarrow> Some (Inl e)
           | Inr sentence_result \<Rightarrow>
               Some (Inr (AList.update ''paragraph_based'' (paragraph_based_splitting text 100)
                           (AList.update ''sentence_based'' sentence_result
                             (AList.update ''fixed_size'' fixed_result []))))))"

subsection \<open>The evaluator\<close>

definition mean :: "real list \<Rightarrow> real" where
  "mean xs = sum_list xs / real (length xs)"

definition np_mean :: "real list \<Rightarrow> np_float" where
  "np_mean xs = (if xs = [] then NaN else Finite (mean xs))"

text \<open>\<^verbatim>\<open>np.std\<close>: the population standard deviation.\<close>

definition np_std :: "real list \<Rightarrow> np_float" where
  "np_std xs =
     (if xs = [] then NaN
      else Finite (sqrt (mean (map (\<lambda>x. (x - mean xs)\<^sup>2) xs))))"

definition calculate_chunk_statistics :: "string list \<Rightarrow> np_float \<times> np_float" where
  "calculate_chunk_statistics cs =
     (let sizes = map (\<lambda>chunk. real (length chunk)) cs
      in (np_mean sizes, np_std sizes))"

definition dot :: "real list \<Rightarrow> real list \<Rightarrow> real" where
  "dot a b = sum_list (map (\<lambda>(x, y). x * y) (zip a b))"

definition vec_norm :: "real list \<Rightarrow> real" where
  "vec_norm a = sqrt (dot a a)"

text \<open>
  Modelled from the spec: \<^verbatim>\<open>cosine_similarity\<close> is imported from scikit-learn and has
  no source in the repository. The spec gives it for two vectors of equal dimension as
  \<^verbatim>\<open>dot(a,b) / (||a|| * ||b||)\<close>, and 0 where either norm is 0. The library call is made
  on two one-row matrices; its input validation rejects rows of different widths and
  rows of width 0 with a \<^verbatim>\<open>ValueError\<close>.
\<close>

definition cosine_similarity :: "real list \<Rightarrow> real list \<Rightarrow> error + real" where
  "cosine_similarity a b =
     (if a = [] \<or> b = [] then Inl (ValueError ''Found array with 0 feature(s)'')
      else if length a \<noteq> length b then Inl (ValueError ''Incompatible dimension for X and Y matrices'')
      else if vec_norm a = 0 \<or> vec_norm b = 0 then Inr 0
      else Inr (dot a b / (vec_norm a * vec_norm b)))"

text \<open>The \<^verbatim>\<open>for i in range(len(embeddings) - 1)\<close> loop over the adjacent pairs.\<close>

fun adjacent_similarities :: "real list list \<Rightarrow> error + real list" where
  "adjacent_similarities (a # b # es) =
     (case cosine_similarity a b of
        Inl e \<Rightarrow> Inl e
      | Inr sim \<Rightarrow>
          (case adjacent_similarities (b # es) of
             Inl e \<Rightarrow> Inl e
           | Inr sims \<Rightarrow> Inr (sim # sims)))"
| "adjacent_similarities es = Inr []"

text \<open>With two vectors or more the list of similarities is not empty, and its mean is a number.\<close>

definition calculate_embedding_similarity :: "real list list \<Rightarrow> error + real" where
  "calculate_embedding_similarity es =
     (if length es < 2 then Inr 0
      else
        (case adjacent_similarities es of
           Inl e \<Rightarrow> Inl e
         | Inr similarities \<Rightarrow> Inr (mean similarities)))"

text \<open>Both operands of the division are Python integers: a zero divisor raises.\<close>

definition calculate_coverage_score :: "string \<Rightarrow> string list \<Rightarrow> error + real" where
  "calculate_coverage_score original_text cs =
     (let original_length = length original_text;
          total_chunk_length = sum_list (map length cs)
      in if original_length = 0 then Inl ZeroDivisionError
         else Inr (min 1 (real total_chunk_length / real original_length)))"

text \<open>A comparison with not-a-number is false; arithmetic on it gives not-a-number.\<close>

fun np_gt :: "np_float \<Rightarrow> np_float \<Rightarrow> bool" where
  "np_gt (Finite x) (Finite y) = (y < x)"
| "np_gt x y = False"

fun np_map :: "(real \<Rightarrow> real) \<Rightarrow> np_float \<Rightarrow> np_float" where
  "np_map f (Finite x) = Finite (f x)"
| "np_map f NaN = NaN"

text \<open>
  \<^verbatim>\<open>evaluate_strategy\<close>. The three helper calls come first, in the order of the source.
  \<^verbatim>\<open>50 / len(chunks)\<close> is the last operand of the sum to be computed and divides two
  Python integers.
\<close>

definition evaluate_strategy ::
  "string \<Rightarrow> string list \<Rightarrow> real list list \<Rightarrow> string \<Rightarrow> error + StrategyMetrics" where
  "evaluate_strategy name cs es original_text =
     (let (avg_size, std_size) = calculate_chunk_statistics cs
      in case calculate_embedding_similarity es of
           Inl e \<Rightarrow> Inl e
         | Inr avg_sim \<Rightarrow>
             (case calculate_coverage_score original_text cs of
                Inl e \<Rightarrow> Inl e
              | Inr coverage \<Rightarrow>
                  (let size_consistency =
                         (case avg_size of
                            Finite a \<Rightarrow>
                              (if 0 < a then np_map (\<lambda>s. 1 / (1 + s / a)) std_size else Finite 0)
                          | NaN \<Rightarrow> Finite 0);
                       similarity_score = 1 - \<bar>avg_sim - 0.5\<bar> * 2
                   in if length cs = 0 then Inl ZeroDivisionError
                      else Inr \<lparr>strategy_name = name,
                                num_chunks = length cs,
                                avg_chunk_size = avg_size,
                                chunk_size_std = std_size,
                                avg_similarity = avg_sim,
                                coverage_score = coverage,
                                total_score =
                                  np_map (\<lambda>sc. 0.3 * coverage + 0.3 * similarity_score + 0.2 * sc
                                               + 0.2 * min 1 (50 / real (length cs)))
                                    size_consistency\<rparr>)))"

text \<open>
  The \<^verbatim>\<open>for strategy_name in strategy_results.keys()\<close> loop of
  \<^verbatim>\<open>select_best_strategy\<close>; an exception in one round ends the loop.
\<close>

fun evaluate_all ::
  "(string \<times> ChunkResult) list \<Rightarrow> (string \<rightharpoonup> EmbeddingResult) \<Rightarrow> string \<Rightarrow> string list
     \<Rightarrow> (string \<times> StrategyMetrics) list \<Rightarrow> error + (string \<times> StrategyMetrics) list" where
  "evaluate_all strategy_results embedding_results original_text [] all_metrics = Inr all_metrics"
| "evaluate_all strategy_results embedding_results original_text (name # names) all_metrics =
     (case map_of strategy_results name of
        None \<Rightarrow> Inl (KeyError name)
      | Some cr \<Rightarrow>
          (case embedding_results name of
             None \<Rightarrow> Inl (KeyError name)
           | Some er \<Rightarrow>
               (case evaluate_strategy name (chunks cr) (embeddings er) original_text of
                  Inl e \<Rightarrow> Inl e
                | Inr metrics \<Rightarrow>
                    evaluate_all strategy_results embedding_results original_text names
                      (AList.update name metrics all_metrics))))"

text \<open>
  \<^verbatim>\<open>max(all_metrics.items(), key=lambda x: x[1].total_score)\<close>: the running maximum is
  replaced only by an item whose key is greater, and an empty sequence raises.
\<close>

fun max_loop ::
  "(string \<times> StrategyMetrics) \<Rightarrow> (string \<times> StrategyMetrics) list \<Rightarrow> (string \<times> StrategyMetrics)" where
  "max_loop best [] = best"
| "max_loop best (x # xs) =
     max_loop (if np_gt (total_score (snd x)) (total_score (snd best)) then x else best) xs"

definition max_by_total_score ::
  "(string \<times> StrategyMetrics) list \<Rightarrow> error + (string \<times> StrategyMetrics)" where
  "max_by_total_score items =
     (case items of
        [] \<Rightarrow> Inl (ValueError ''max() arg is an empty sequence'')
      | x # xs \<Rightarrow> Inr (max_loop x xs))"

definition select_best_strategy ::
  "(string \<times> ChunkResult) list \<Rightarrow> (string \<rightharpoonup> EmbeddingResult) \<Rightarrow> string
     \<Rightarrow> error + (string \<times> StrategyMetrics \<times> (string \<times> StrategyMetrics) list)" where
  "select_best_strategy strategy_results embedding_results original_text =
     (case evaluate_all strategy_results embedding_results original_text
             (map fst strategy_results) [] of
        Inl e \<Rightarrow> Inl e
      | Inr all_metrics \<Rightarrow>
          (case max_by_total_score all_metrics of
             Inl e \<Rightarrow> Inl e
           | Inr (best_name, best_metrics) \<Rightarrow> Inr (best_name, best_metrics, all_metrics)))"

subsection \<open>Auxiliary notions and example inputs\<close>


text \<open>
  An entry of the metrics dictionary is \<open>evaluated\<close> when its metrics are what
  \<^verbatim>\<open>evaluate_strategy\<close> returns for the chunks and the embeddings stored under its own name.
\<close>

definition evaluated ::
  "(string \<times> ChunkResult) list \<Rightarrow> (string \<rightharpoonup> EmbeddingResult) \<Rightarrow> string
     \<Rightarrow> (string \<times> StrategyMetrics) \<Rightarrow> bool" where
  "evaluated strategy_results embedding_results original_text p =
     (\<exists>cr er. map_of strategy_results (fst p) = Some cr \<and> embedding_results (fst p) = Some er
        \<and> evaluate_strategy (fst p) (chunks cr) (embeddings er) original_text = Inr (snd p))"

text \<open>
  An example input of \<^verbatim>\<open>select_best_strategy\<close> for the text \<^verbatim>\<open>"ab cd"\<close>, and the shape of
  the metrics it leads to.
\<close>

definition example_strategy_results :: "(string \<times> ChunkResult) list" where
  "example_strategy_results =
     [(''fixed_size'',
       \<lparr>chunks = [''ab''], strategy = ''fixed_size_with_overlap'',
        ChunkResult.num_chunks = 1, ChunkResult.avg_chunk_size = 2\<rparr>),
      (''sentence_based'',
       \<lparr>chunks = [''ab'', ''cd''], strategy = ''sentence_based'',
        ChunkResult.num_chunks = 2, ChunkResult.avg_chunk_size = 2\<rparr>),
      (''paragraph_based'',
       \<lparr>chunks = [''ab'', ''cd''], strategy = ''paragraph_based'',
        ChunkResult.num_chunks = 2, ChunkResult.avg_chunk_size = 2\<rparr>)]"

definition example_embedding_results :: "string \<rightharpoonup> EmbeddingResult" where
  "example_embedding_results =
     [''fixed_size'' \<mapsto>
        \<lparr>embeddings = [[1, 0]], EmbeddingResult.chunks = [''ab''],
         EmbeddingResult.strategy = ''fixed_size_with_overlap'', dimension = 2, total_chunks = 1\<rparr>,
      ''sentence_based'' \<mapsto>
        \<lparr>embeddings = [[1, 0], [0, 1]], EmbeddingResult.chunks = [''ab'', ''cd''],
         EmbeddingResult.strategy = ''sentence_based'', dimension = 2, total_chunks = 2\<rparr>,
      ''paragraph_based'' \<mapsto>
        \<lparr>embeddings = [[1, 0], [0, 1]], EmbeddingResult.chunks = [''ab'', ''cd''],
         EmbeddingResult.strategy = ''paragraph_based'', dimension = 2, total_chunks = 2\<rparr>]"

definition example_metrics :: "string \<Rightarrow> nat \<Rightarrow> real \<Rightarrow> real \<Rightarrow> StrategyMetrics" where
  "example_metrics name n cov score =
     \<lparr>strategy_name = name, num_chunks = n, avg_chunk_size = Finite 2,
      chunk_size_std = Finite 0, avg_similarity = 0, coverage_score = cov,
      total_score = Finite score\<rparr>"

text \<open>
  Two more inputs for the text \<^verbatim>\<open>"ab cd"\<close>. In the first the \<^verbatim>\<open>fixed_size\<close> strategy
  has two chunks and one embedding. In the second the \<^verbatim>\<open>paragraph_based\<close> strategy has
  no chunk and one embedding, and the other two strategies are well formed.
\<close>

definition mismatched_strategy_results :: "(string \<times> ChunkResult) list" where
  "mismatched_strategy_results =
     [(''fixed_size'',
       \<lparr>chunks = [''ab'', ''cd''], strategy = ''fixed_size_with_overlap'',
        ChunkResult.num_chunks = 2, ChunkResult.avg_chunk_size = 2\<rparr>),
      (''sentence_based'',
       \<lparr>chunks = [''ab'', ''cd''], strategy = ''sentence_based'',
        ChunkResult.num_chunks = 2, ChunkResult.avg_chunk_size = 2\<rparr>),
      (''paragraph_based'',
       \<lparr>chunks = [''ab''], strategy = ''paragraph_based'',
        ChunkResult.num_chunks = 1, ChunkResult.avg_chunk_size = 2\<rparr>)]"

definition mismatched_embedding_results :: "string \<rightharpoonup> EmbeddingResult" where
  "mismatched_embedding_results =
     [''fixed_size'' \<mapsto>
        \<lparr>embeddings = [[1, 0]], EmbeddingResult.chunks = [''ab'', ''cd''],
         EmbeddingResult.strategy = ''fixed_size_with_overlap'', dimension = 2, total_chunks = 2\<rparr>,
      ''sentence_based'' \<mapsto>
        \<lparr>embeddings = [[1, 0], [0, 1]], EmbeddingResult.chunks = [''ab'', ''cd''],
         EmbeddingResult.strategy = ''sentence_based'', dimension = 2, total_chunks = 2\<rparr>,
      ''paragraph_based'' \<mapsto>
        \<lparr>embeddings = [[1, 0]], EmbeddingResult.chunks = [''ab''],
         EmbeddingResult.strategy = ''paragraph_based'', dimension = 2, total_chunks = 1\<rparr>]"

definition aborting_strategy_results :: "(string \<times> ChunkResult) list" where
  "aborting_strategy_results =
     [(''fixed_size'',
       \<lparr>chunks = [''ab'', ''cd''], strategy = ''fixed_size_with_overlap'',
        ChunkResult.num_chunks = 2, ChunkResult.avg_chunk_size = 2\<rparr>),
      (''sentence_based'',
       \<lparr>chunks = [''ab'', ''cd''], strategy = ''sentence_based'',
        ChunkResult.num_chunks = 2, ChunkResult.avg_chunk_size = 2\<rparr>),
      (''paragraph_based'',
       \<lparr>chunks = [], strategy = ''paragraph_based'',
        ChunkResult.num_chunks = 0, ChunkResult.avg_chunk_size = 0\<rparr>)]"

definition aborting_embedding_results :: "string \<rightharpoonup> EmbeddingResult" where
  "aborting_embedding_results =
     [''fixed_size'' \<mapsto>
        \<lparr>embeddings = [[1, 0], [0, 1]], EmbeddingResult.chunks = [''ab'', ''cd''],
         EmbeddingResult.strategy = ''fixed_size_with_overlap'', dimension = 2, total_chunks = 2\<rparr>,
      ''sentence_based'' \<mapsto>
        \<lparr>embeddings = [[1, 0], [0, 1]], EmbeddingResult.chunks = [''ab'', ''cd''],
         EmbeddingResult.strategy = ''sentence_based'', dimension = 2, total_chunks = 2\<rparr>,
      ''paragraph_based'' \<mapsto>
        \<lparr>embeddings = [[1, 0]], EmbeddingResult.chunks = [],
         EmbeddingResult.strategy = ''paragraph_based'', dimension = 2, total_chunks = 0\<rparr>]"

section \<open>Properties of the splitter\<close>

lemma fixed_size_loop_returns:
  "0 < chunk_size - overlap \<Longrightarrow> int (length text) - start \<le> int fuel
     \<Longrightarrow> \<exists>cs. fixed_size_loop fuel text chunk_size overlap start acc = Some cs"
proof (induction fuel arbitrary: start acc)
  case 0
  then show ?case by simp
next
  case (Suc f)
  show ?case
  proof (cases "start < int (length text)")
    case False
    then show ?thesis by simp
  next
    case True
    have "int (length text) - (start + (chunk_size - overlap)) \<le> int f"
      using Suc.prems by simp
    from Suc.IH [OF Suc.prems(1) this] show ?thesis
      using True by (simp add: Let_def)
  qed
qed

text \<open>
  Claim C9. Whenever the configuration error is not raised, that is for
  \<open>overlap < chunk_size\<close>, \<^verbatim>\<open>fixed_size_with_overlap\<close> returns: every round of the loop
  moves the window start forward by at least one, so fuel for \<open>length text\<close> rounds is
  always enough, for every text and every pair of integers, negative ones included.
\<close>

theorem fixed_size_with_overlap_terminates:
  "overlap < chunk_size \<Longrightarrow> length text \<le> fuel
     \<Longrightarrow> \<exists>r. fixed_size_with_overlap fuel text chunk_size overlap = Some (Inr r)"
proof -
  assume a: "overlap < chunk_size" and b: "length text \<le> fuel"
  from a have "0 < chunk_size - overlap" by simp
  moreover from b have "int (length text) - 0 \<le> int fuel" by simp
  ultimately obtain cs where "fixed_size_loop fuel text chunk_size overlap 0 [] = Some cs"
    using fixed_size_loop_returns by blast
  with a show ?thesis by (simp add: fixed_size_with_overlap_def)
qed

theorem fixed_size_with_overlap_terminates_witness:
  "(1::int) < 3 \<and> length ''ab cd'' \<le> 5
     \<and> (\<exists>r. fixed_size_with_overlap 5 ''ab cd'' 3 1 = Some (Inr r))"
  using fixed_size_with_overlap_terminates [of 1 3 "''ab cd''" 5] by simp

lemma py_range_negative_step: "k < 0 \<Longrightarrow> py_range 0 (int n) k = Inr []"
proof -
  assume k: "k < 0"
  have "\<not> 0 < (- int n - k - 1) div - k"
    using k by (simp add: pos_imp_zdiv_pos_iff)
  then show ?thesis using k by (simp add: py_range_def)
qed

text \<open>
  Claim C10. \<^verbatim>\<open>sentence_based_splitting\<close> checks none of its parameters: with
  \<open>sentences_per_chunk = 0\<close> the zero step of \<^verbatim>\<open>range\<close> raises for every text, and with
  a negative \<open>sentences_per_chunk\<close> the result has no chunks, \<open>num_chunks = 0\<close> and
  \<open>avg_chunk_size = 0\<close> for every text. The fixed-size strategy, in contrast, rejects
  \<open>overlap \<ge> chunk_size\<close> with its configuration error before the loop.
\<close>

theorem sentence_based_splitting_unvalidated:
  "sentence_based_splitting text 0 = Inl (ValueError ''range() arg 3 must not be zero'')
   \<and> (k < 0 \<longrightarrow> sentence_based_splitting text k =
         Inr \<lparr>chunks = [], strategy = ''sentence_based'',
              ChunkResult.num_chunks = 0, ChunkResult.avg_chunk_size = 0\<rparr>)
   \<and> (chunk_size \<le> overlap \<longrightarrow> fixed_size_with_overlap fuel text chunk_size overlap =
         Some (Inl (ValueError ''Overlap must be smaller than chunk_size'')))"
proof -
  have "sentence_based_splitting text 0 = Inl (ValueError ''range() arg 3 must not be zero'')"
    by (simp add: sentence_based_splitting_def py_range_def)
  moreover have "k < 0 \<longrightarrow> sentence_based_splitting text k =
         Inr \<lparr>chunks = [], strategy = ''sentence_based'',
              ChunkResult.num_chunks = 0, ChunkResult.avg_chunk_size = 0\<rparr>"
    by (simp add: sentence_based_splitting_def py_range_negative_step avg_size_of_def)
  moreover have "chunk_size \<le> overlap \<longrightarrow> fixed_size_with_overlap fuel text chunk_size overlap =
         Some (Inl (ValueError ''Overlap must be smaller than chunk_size''))"
    by (simp add: fixed_size_with_overlap_def)
  ultimately show ?thesis by blast
qed

theorem sentence_based_splitting_unvalidated_witness:
  "sentence_based_splitting ''Hi.  There! x? y'' 0
     = Inl (ValueError ''range() arg 3 must not be zero'')
   \<and> (- 2 < (0::int) \<and> sentence_based_splitting ''Hi.  There! x? y'' (- 2) =
         Inr \<lparr>chunks = [], strategy = ''sentence_based'',
              ChunkResult.num_chunks = 0, ChunkResult.avg_chunk_size = 0\<rparr>)
   \<and> ((3::int) \<le> 3 \<and> fixed_size_with_overlap 2 ''Hi.  There! x? y'' 3 3 =
         Some (Inl (ValueError ''Overlap must be smaller than chunk_size'')))"
  using sentence_based_splitting_unvalidated [of "''Hi.  There! x? y''" "- 2" 3 3 2] by simp



















lemma paragraph_loop_keeps_chunks: "acc \<noteq> [] \<Longrightarrow> paragraph_loop m ps acc \<noteq> []"
  by (induction ps arbitrary: acc) (simp_all add: Let_def)

lemma paragraph_loop_empty_iff:
  "paragraph_loop m ps [] = [] \<longleftrightarrow> (\<forall>p\<in>set ps. int (length (strip p)) < m)"
proof (induction ps)
  case Nil
  then show ?case by simp
next
  case (Cons p ps)
  show ?case
  proof (cases "m \<le> int (length (strip p))")
    case True
    then have "paragraph_loop m (p # ps) [] = paragraph_loop m ps [strip p]"
      by (simp add: Let_def)
    with True show ?thesis using paragraph_loop_keeps_chunks [of "[strip p]" m ps] by auto
  next
    case False
    then have "paragraph_loop m (p # ps) [] = paragraph_loop m ps []"
      by (simp add: Let_def)
    with False Cons.IH show ?thesis by auto
  qed
qed

lemma strip_empty_iff: "strip s = [] \<longleftrightarrow> (\<forall>c\<in>set s. isspace c)"
proof
  assume "strip s = []"
  then have a: "\<forall>c\<in>set (dropWhile isspace s). isspace c"
    by (simp add: strip_def)
  have "dropWhile isspace s = []"
  proof (rule ccontr)
    assume n: "dropWhile isspace s \<noteq> []"
    then have "\<not> isspace (hd (dropWhile isspace s))" by (rule hd_dropWhile)
    moreover have "hd (dropWhile isspace s) \<in> set (dropWhile isspace s)" using n by simp
    ultimately show False using a by blast
  qed
  then show "\<forall>c\<in>set s. isspace c" by simp
next
  assume "\<forall>c\<in>set s. isspace c"
  then have h: "dropWhile isspace s = []" by simp
  show "strip s = []" unfolding strip_def h by simp
qed

lemma set_after_last_newline: "set (after_last_newline ws) \<subseteq> set ws"
proof
  fix x assume "x \<in> set (after_last_newline ws)"
  then have "x \<in> set (takeWhile (\<lambda>x. x \<noteq> CHR 0x0A) (rev ws))"
    by (simp add: after_last_newline_def)
  then have "x \<in> set (rev ws)" by (rule set_takeWhileD [THEN conjunct1])
  then show "x \<in> set ws" by simp
qed

lemma split_paragraphs_pieces_subset:
  "p \<in> set (split_paragraphs cur s) \<Longrightarrow> set p \<subseteq> set cur \<union> set s"
proof (induction cur s rule: split_paragraphs.induct)
  case (1 cur)
  then show ?case by simp
next
  case (2 cur c cs)
  show ?case
  proof (cases "c = CHR 0x0A \<and> CHR 0x0A \<in> set (takeWhile isspace cs)")
    case True
    define rest where "rest = after_last_newline (takeWhile isspace cs) @ dropWhile isspace cs"
    have r: "set rest \<subseteq> set cs"
      using set_after_last_newline [of "takeWhile isspace cs"]
      by (auto simp: rest_def dest: set_takeWhileD set_dropWhileD)
    from "2.prems" True have "p = rev cur \<or> p \<in> set (split_paragraphs [] rest)"
      by (simp add: rest_def)
    then show ?thesis
    proof
      assume "p = rev cur"
      then show ?thesis by auto
    next
      assume "p \<in> set (split_paragraphs [] rest)"
      with "2.IH"(1) [OF True] have "set p \<subseteq> set rest" by (simp add: rest_def)
      with r show ?thesis by auto
    qed
  next
    case False
    with "2.prems" have "p \<in> set (split_paragraphs (c # cur) cs)" by auto
    with "2.IH"(2) [OF False] show ?thesis by auto
  qed
qed

lemma split_paragraphs_nonempty: "split_paragraphs cur s \<noteq> []"
  by (induction cur s rule: split_paragraphs.induct) auto

lemma paragraph_loop_blank:
  assumes "strip t = []" "0 < m"
  shows "paragraph_loop m (split_paragraphs [] t) [] = []"
proof -
  have "\<forall>p\<in>set (split_paragraphs [] t). int (length (strip p)) < m"
  proof
    fix p assume "p \<in> set (split_paragraphs [] t)"
    then have "set p \<subseteq> set t" using split_paragraphs_pieces_subset [of p "[]" t] by simp
    moreover have "\<forall>c\<in>set t. isspace c" using assms(1) by (simp add: strip_empty_iff)
    ultimately have "strip p = []" by (auto simp: strip_empty_iff)
    with assms(2) show "int (length (strip p)) < m" by simp
  qed
  then show ?thesis by (simp add: paragraph_loop_empty_iff)
qed

lemma paragraph_loop_nonpositive_minimum:
  assumes "m \<le> 0"
  shows "paragraph_loop m (split_paragraphs [] t) [] \<noteq> []"
proof -
  obtain p ps where "split_paragraphs [] t = p # ps"
    using split_paragraphs_nonempty [of "[]" t] by (cases "split_paragraphs [] t") auto
  moreover have "m \<le> int (length (strip p))" using assms by simp
  ultimately show ?thesis
    by (simp add: paragraph_loop_empty_iff [of m "p # ps"] del: paragraph_loop.simps)
qed

text \<open>
  Claim C8, as amended. For every text that is not empty after trimming,
  \<^verbatim>\<open>paragraph_based_splitting\<close> returns a non-empty chunk list; if no paragraph reaches
  the minimum length, the list is the single chunk that holds the whole trimmed text.
  For every text that is empty after trimming, a text of whitespace only included, and
  every positive minimum length the chunk list is empty. For a minimum length of zero or
  less the chunk list is never empty.
\<close>

theorem paragraph_based_splitting_nonempty:
  "(strip text \<noteq> [] \<longrightarrow>
      chunks (paragraph_based_splitting text m) \<noteq> []
      \<and> ((\<forall>p\<in>set (split_paragraphs [] text). int (length (strip p)) < m) \<longrightarrow>
           chunks (paragraph_based_splitting text m) = [strip text]))
   \<and> (strip blank = [] \<and> 0 < k \<longrightarrow> chunks (paragraph_based_splitting blank k) = [])
   \<and> (j \<le> 0 \<longrightarrow> chunks (paragraph_based_splitting t j) \<noteq> [])"
proof (intro conjI impI)
  assume "strip text \<noteq> []"
  then show "chunks (paragraph_based_splitting text m) \<noteq> []"
    by (simp add: paragraph_based_splitting_def Let_def)
next
  assume "strip text \<noteq> []"
    and "\<forall>p\<in>set (split_paragraphs [] text). int (length (strip p)) < m"
  then show "chunks (paragraph_based_splitting text m) = [strip text]"
    by (simp add: paragraph_based_splitting_def Let_def paragraph_loop_empty_iff)
next
  assume "strip blank = [] \<and> 0 < k"
  then show "chunks (paragraph_based_splitting blank k) = []"
    by (simp add: paragraph_based_splitting_def Let_def paragraph_loop_blank)
next
  assume "j \<le> 0"
  then show "chunks (paragraph_based_splitting t j) \<noteq> []"
    by (simp add: paragraph_based_splitting_def Let_def paragraph_loop_nonpositive_minimum)
qed

theorem paragraph_based_splitting_nonempty_witness:
  "strip '' ab '' \<noteq> []
   \<and> chunks (paragraph_based_splitting '' ab '' 100) \<noteq> []
   \<and> list_all (\<lambda>p. int (length (strip p)) < 100) (split_paragraphs [] '' ab '')
   \<and> chunks (paragraph_based_splitting '' ab '' 100) = [strip '' ab '']
   \<and> strip [CHR '' '', CHR 0x0A, CHR 0x0A, CHR '' ''] = [] \<and> (0::int) < 1
   \<and> chunks (paragraph_based_splitting [CHR '' '', CHR 0x0A, CHR 0x0A, CHR '' ''] 1) = []
   \<and> (0::int) \<le> 0 \<and> chunks (paragraph_based_splitting '' '' 0) \<noteq> []"
  using paragraph_based_splitting_nonempty
          [of "'' ab ''" 100 "[CHR '' '', CHR 0x0A, CHR 0x0A, CHR '' '']" 1 0 "'' ''"]
  by (simp add: strip_def isspace_def)

theorem paragraph_based_splitting_empty_counterexample:
  "'' '' \<noteq> [] \<and> chunks (paragraph_based_splitting '' '' 100) = []"
  by (simp add: paragraph_based_splitting_def strip_def isspace_def Let_def)

section \<open>Properties of the evaluator\<close>

lemmas evaluate_defs =
  evaluate_strategy_def calculate_chunk_statistics_def np_mean_def np_std_def mean_def
  calculate_embedding_similarity_def cosine_similarity_def vec_norm_def dot_def
  calculate_coverage_score_def

text \<open>
  Claim C3. The claim asks that a strategy with an empty chunk list gets a defined low
  score, the chunk count term counting as 0. The code does not do that: the mean of the
  empty list is not-a-number, the guard \<^verbatim>\<open>avg_size > 0\<close> sends the size consistency to 0,
  and then \<^verbatim>\<open>50 / len(chunks)\<close> divides by zero. For an empty chunk list with its empty
  embedding list, \<^verbatim>\<open>evaluate_strategy\<close> raises \<^verbatim>\<open>ZeroDivisionError\<close> for every strategy
  name and every original text.
\<close>

theorem evaluate_strategy_empty_chunks:
  "evaluate_strategy name [] [] original_text = Inl ZeroDivisionError"
  by (simp add: evaluate_strategy_def calculate_chunk_statistics_def np_mean_def np_std_def
      calculate_embedding_similarity_def calculate_coverage_score_def)

lemma evaluate_strategy_no_chunks_no_result:
  "evaluate_strategy name [] es original_text \<noteq> Inr m"
  by (simp add: evaluate_strategy_def calculate_chunk_statistics_def np_mean_def np_std_def
      calculate_coverage_score_def split: sum.splits)

lemma size_consistency_bounds:
  fixes a s :: real
  assumes "0 < a" "0 \<le> s"
  shows "0 \<le> 1 / (1 + s / a)" "1 / (1 + s / a) \<le> 1"
proof -
  have "0 \<le> s / a" using assms by simp
  then have "1 \<le> 1 + s / a" by simp
  then show "0 \<le> 1 / (1 + s / a)" "1 / (1 + s / a) \<le> 1" by simp_all
qed

lemma evaluate_strategy_value:
  assumes "cs \<noteq> []" "original_text \<noteq> []" "calculate_embedding_similarity es = Inr s"
  shows "\<exists>sc. 0 \<le> sc \<and> sc \<le> 1 \<and>
    evaluate_strategy name cs es original_text =
      Inr \<lparr>strategy_name = name, num_chunks = length cs,
           avg_chunk_size = fst (calculate_chunk_statistics cs),
           chunk_size_std = snd (calculate_chunk_statistics cs),
           avg_similarity = s,
           coverage_score = min 1 (real (sum_list (map length cs)) / real (length original_text)),
           total_score = Finite (0.3 * min 1 (real (sum_list (map length cs)) / real (length original_text))
                                 + 0.3 * (1 - \<bar>s - 0.5\<bar> * 2) + 0.2 * sc
                                 + 0.2 * min 1 (50 / real (length cs)))\<rparr>"
proof -
  define sizes where "sizes = map (\<lambda>chunk. real (length chunk)) cs"
  define a where "a = mean sizes"
  define d where "d = sqrt (mean (map (\<lambda>x. (x - mean sizes)\<^sup>2) sizes))"
  have ne: "sizes \<noteq> []" using assms(1) by (simp add: sizes_def)
  have stats: "calculate_chunk_statistics cs = (Finite a, Finite d)"
    using ne by (simp add: calculate_chunk_statistics_def np_mean_def np_std_def sizes_def [symmetric] a_def d_def)
  have "0 \<le> sum_list (map (\<lambda>x. (x - mean sizes)\<^sup>2) sizes)"
    by (rule sum_list_nonneg) auto
  then have d0: "0 \<le> d" by (simp add: d_def mean_def)
  define sc where "sc = (if 0 < a then 1 / (1 + d / a) else 0)"
  have b: "0 \<le> sc" "sc \<le> 1"
    using size_consistency_bounds [of a d] d0 by (auto simp: sc_def)
  have "evaluate_strategy name cs es original_text =
      Inr \<lparr>strategy_name = name, num_chunks = length cs,
           avg_chunk_size = fst (calculate_chunk_statistics cs),
           chunk_size_std = snd (calculate_chunk_statistics cs),
           avg_similarity = s,
           coverage_score = min 1 (real (sum_list (map length cs)) / real (length original_text)),
           total_score = Finite (0.3 * min 1 (real (sum_list (map length cs)) / real (length original_text))
                                 + 0.3 * (1 - \<bar>s - 0.5\<bar> * 2) + 0.2 * sc
                                 + 0.2 * min 1 (50 / real (length cs)))\<rparr>"
    using assms stats
    by (simp add: evaluate_strategy_def calculate_coverage_score_def sc_def)
  with b show ?thesis by blast
qed

lemma dot_zero_left: "\<forall>x\<in>set a. x = 0 \<Longrightarrow> dot a b = 0"
proof (induction a arbitrary: b)
  case Nil
  then show ?case by (simp add: dot_def)
next
  case (Cons x xs)
  then have "dot xs (tl b) = 0" by simp
  with Cons.prems show ?case by (cases b) (simp_all add: dot_def)
qed

lemma vec_norm_zero: "\<forall>x\<in>set a. x = 0 \<Longrightarrow> vec_norm a = 0"
  by (simp add: vec_norm_def dot_zero_left)

lemma cosine_similarity_zero:
  assumes "0 < d" "length a = d" "length b = d" "\<forall>x\<in>set a. x = 0"
  shows "cosine_similarity a b = Inr 0"
  using assms by (auto simp: cosine_similarity_def vec_norm_zero)

lemma cosine_similarity_returns:
  assumes "0 < d" "length a = d" "length b = d"
  shows "\<exists>s. cosine_similarity a b = Inr s"
  using assms by (auto simp: cosine_similarity_def)

lemma adjacent_similarities_zero:
  "0 < d \<Longrightarrow> \<forall>e\<in>set es. length e = d \<and> (\<forall>x\<in>set e. x = 0)
     \<Longrightarrow> adjacent_similarities es = Inr (replicate (length es - 1) 0)"
proof (induction es rule: adjacent_similarities.induct)
  case (1 a b es)
  have c: "cosine_similarity a b = Inr 0"
    using cosine_similarity_zero [of d a b] "1.prems" by simp
  have "adjacent_similarities (b # es) = Inr (replicate (length (b # es) - 1) 0)"
    using "1.IH" [OF c "1.prems"(1)] "1.prems"(2) by simp
  with c show ?case by simp
qed simp_all

lemma adjacent_similarities_returns:
  "0 < d \<Longrightarrow> \<forall>e\<in>set es. length e = d
     \<Longrightarrow> \<exists>sims. adjacent_similarities es = Inr sims"
proof (induction es rule: adjacent_similarities.induct)
  case (1 a b es)
  obtain s where c: "cosine_similarity a b = Inr s"
    using cosine_similarity_returns [of d a b] "1.prems" by auto
  obtain sims where "adjacent_similarities (b # es) = Inr sims"
    using "1.IH" [OF c "1.prems"(1)] "1.prems"(2) by auto
  with c show ?case by simp
qed simp_all

lemma calculate_embedding_similarity_returns:
  "0 < d \<Longrightarrow> \<forall>e\<in>set es. length e = d \<Longrightarrow> \<exists>s. calculate_embedding_similarity es = Inr s"
  using adjacent_similarities_returns [of d es]
  by (auto simp: calculate_embedding_similarity_def)

lemma mean_zeros: "mean (replicate n 0) = 0"
  by (simp add: mean_def sum_list_replicate)

text \<open>
  Claim C5. For two or more embedding vectors of one positive dimension that are all
  zero, \<^verbatim>\<open>calculate_embedding_similarity\<close> returns 0: every adjacent cosine similarity
  is 0 by the zero-norm rule, and so is their mean. No error is raised.
\<close>

theorem all_zero_embeddings_similarity:
  assumes "2 \<le> length es" "0 < d" "\<forall>e\<in>set es. length e = d \<and> (\<forall>x\<in>set e. x = 0)"
  shows "calculate_embedding_similarity es = Inr 0"
  using assms adjacent_similarities_zero [of d es]
  by (simp add: calculate_embedding_similarity_def mean_zeros)

theorem all_zero_embeddings_similarity_witness:
  "2 \<le> length [[0, 0, 0], [0, 0, 0 :: real]] \<and> (0::nat) < 3
   \<and> list_all (\<lambda>e. length e = 3 \<and> list_all (\<lambda>x. x = 0) e) [[0, 0, 0], [0, 0, 0 :: real]]
   \<and> calculate_embedding_similarity [[0, 0, 0], [0, 0, 0]] = Inr 0"
  using all_zero_embeddings_similarity [of "[[0, 0, 0], [0, 0, 0]]" 3] by simp

text \<open>
  Claim C6, as amended. For a non-empty chunk list, a non-empty original text and one
  embedding vector of a fixed positive dimension per chunk, \<^verbatim>\<open>evaluate_strategy\<close> returns
  a metrics record whose total score is a number and at most 1; it is at least 0
  whenever the average similarity lies between 0 and 1. Without that condition the score
  can be negative, since a cosine similarity can be: see the counterexample.
\<close>

theorem total_score_bounds:
  assumes "cs \<noteq> []" "original_text \<noteq> []" "length es = length cs"
    and "0 < d" "\<forall>e\<in>set es. length e = d"
  shows "\<exists>m t. evaluate_strategy name cs es original_text = Inr m
           \<and> total_score m = Finite t \<and> t \<le> 1
           \<and> (0 \<le> avg_similarity m \<and> avg_similarity m \<le> 1 \<longrightarrow> 0 \<le> t)"
proof -
  obtain s where s: "calculate_embedding_similarity es = Inr s"
    using calculate_embedding_similarity_returns assms(4,5) by blast
  define cov where "cov = min 1 (real (sum_list (map length cs)) / real (length original_text))"
  define cnt where "cnt = min 1 (50 / real (length cs))"
  from evaluate_strategy_value [OF assms(1,2) s, of name]
  obtain sc where sc: "0 \<le> sc" "sc \<le> 1"
    and ev: "evaluate_strategy name cs es original_text =
      Inr \<lparr>strategy_name = name, num_chunks = length cs,
           avg_chunk_size = fst (calculate_chunk_statistics cs),
           chunk_size_std = snd (calculate_chunk_statistics cs),
           avg_similarity = s,
           coverage_score = cov,
           total_score = Finite (0.3 * cov + 0.3 * (1 - \<bar>s - 0.5\<bar> * 2) + 0.2 * sc + 0.2 * cnt)\<rparr>"
    unfolding cov_def cnt_def by blast
  have cov: "0 \<le> cov" "cov \<le> 1" by (simp_all add: cov_def)
  have cnt: "0 \<le> cnt" "cnt \<le> 1" by (simp_all add: cnt_def)
  define sim where "sim = 1 - \<bar>s - 0.5\<bar> * 2"
  have sim: "sim \<le> 1" by (simp add: sim_def)
  define t where "t = 0.3 * cov + 0.3 * sim + 0.2 * sc + 0.2 * cnt"
  have "t \<le> 1" using cov cnt sc sim unfolding t_def by linarith
  moreover have "0 \<le> s \<and> s \<le> 1 \<longrightarrow> 0 \<le> t"
  proof
    assume "0 \<le> s \<and> s \<le> 1"
    then have "0 \<le> sim" by (simp add: sim_def abs_if)
    then have "0 \<le> 0.3 * cov" "0 \<le> 0.3 * sim" "0 \<le> 0.2 * sc" "0 \<le> 0.2 * cnt"
      using cov cnt sc by simp_all
    then show "0 \<le> t" unfolding t_def by linarith
  qed
  ultimately show ?thesis using ev by (simp add: t_def sim_def)
qed

theorem total_score_bounds_witness:
  "[''a'', ''b''] \<noteq> [] \<and> ''ab'' \<noteq> [] \<and> length [[1], [1 :: real]] = length [''a'', ''b'']
   \<and> (0::nat) < 1 \<and> list_all (\<lambda>e. length e = 1) [[1], [1 :: real]]
   \<and> (\<exists>m t. evaluate_strategy ''fixed_size'' [''a'', ''b''] [[1], [1]] ''ab'' = Inr m
           \<and> total_score m = Finite t \<and> t \<le> 1
           \<and> (0 \<le> avg_similarity m \<and> avg_similarity m \<le> 1 \<longrightarrow> 0 \<le> t))"
  using total_score_bounds [of "[''a'', ''b'']" "''ab''" "[[1], [1]]" 1 "''fixed_size''"] by simp

theorem total_score_negative_counterexample:
  "[''a'', ''b''] \<noteq> [] \<and> ''a   b'' \<noteq> [] \<and> length [[1], [- 1 :: real]] = length [''a'', ''b'']
   \<and> evaluate_strategy ''fixed_size'' [''a'', ''b''] [[1], [- 1]] ''a   b'' =
       Inr \<lparr>strategy_name = ''fixed_size'', num_chunks = 2, avg_chunk_size = Finite 1,
            chunk_size_std = Finite 0, avg_similarity = - 1, coverage_score = 2 / 5,
            total_score = Finite (- 2 / 25)\<rparr>
   \<and> (- 2 / 25 :: real) < 0"
  by (simp add: evaluate_defs)

text \<open>
  Claim C4, as amended. For the empty original text \<^verbatim>\<open>calculate_coverage_score\<close> raises
  the \<^verbatim>\<open>ZeroDivisionError\<close> of its own division, whatever the chunks, and
  \<^verbatim>\<open>evaluate_strategy\<close> passes it on whenever the similarity step before it has
  returned; no error of the evaluator's own is defined for this case. For every
  non-empty original text the coverage is the capped ratio.
\<close>

theorem empty_text_division:
  "calculate_coverage_score [] cs = Inl ZeroDivisionError
   \<and> (calculate_embedding_similarity es = Inr s \<longrightarrow>
        evaluate_strategy name cs es [] = Inl ZeroDivisionError)
   \<and> (original_text \<noteq> [] \<longrightarrow>
        calculate_coverage_score original_text cs =
          Inr (min 1 (real (sum_list (map length cs)) / real (length original_text))))"
  by (simp add: evaluate_strategy_def calculate_coverage_score_def split: prod.splits)

theorem empty_text_division_witness:
  "calculate_coverage_score [] [''abc''] = Inl ZeroDivisionError
   \<and> (calculate_embedding_similarity [[1]] = Inr 0 \<and>
        evaluate_strategy ''fixed_size'' [''abc''] [[1]] [] = Inl ZeroDivisionError)
   \<and> (''abcdef'' \<noteq> [] \<and>
        calculate_coverage_score ''abcdef'' [''abc''] = Inr (1 / 2))"
  using empty_text_division [of "[''abc'']" "[[1]]" 0 "''fixed_size''" "''abcdef''"]
  by (simp add: calculate_embedding_similarity_def)

theorem empty_text_counterexample:
  "calculate_coverage_score [] [''abc''] = Inl ZeroDivisionError
   \<and> evaluate_strategy ''fixed_size'' [''abc''] [[1]] [] = Inl ZeroDivisionError"
  by (simp add: evaluate_defs)

lemma evaluate_strategy_finite_score:
  assumes "evaluate_strategy name cs es original_text = Inr m"
  shows "\<exists>t. total_score m = Finite t"
proof -
  from assms have ne: "cs \<noteq> []"
    using evaluate_strategy_no_chunks_no_result by blast
  from assms have tx: "original_text \<noteq> []"
    by (auto simp: evaluate_strategy_def calculate_coverage_score_def split: prod.splits sum.splits)
  from assms obtain s where "calculate_embedding_similarity es = Inr s"
    by (auto simp: evaluate_strategy_def split: prod.splits sum.splits)
  from evaluate_strategy_value [OF ne tx this, of name] assms show ?thesis by auto
qed

lemma set_update_subset: "set (AList.update k v al) \<subseteq> insert (k, v) (set al)"
  by (induction al) auto

lemma evaluate_all_entries:
  "evaluate_all sr er t names acc = Inr all \<Longrightarrow> \<forall>p\<in>set acc. evaluated sr er t p
     \<Longrightarrow> \<forall>p\<in>set all. evaluated sr er t p"
proof (induction names arbitrary: acc)
  case Nil
  then show ?case by simp
next
  case (Cons name names)
  from Cons.prems(1) obtain cr e m where
    a: "map_of sr name = Some cr" "er name = Some e"
       "evaluate_strategy name (chunks cr) (embeddings e) t = Inr m"
    and b: "evaluate_all sr er t names (AList.update name m acc) = Inr all"
    by (auto split: option.splits sum.splits)
  have "evaluated sr er t (name, m)" using a by (simp add: evaluated_def)
  with Cons.prems(2) have "\<forall>p\<in>set (AList.update name m acc). evaluated sr er t p"
    using set_update_subset [of name m acc] by auto
  from Cons.IH [OF b this] show ?case .
qed

lemma evaluate_all_keys:
  "evaluate_all sr er t names acc = Inr all \<Longrightarrow> distinct names
     \<Longrightarrow> set names \<inter> fst ` set acc = {}
     \<Longrightarrow> map fst all = map fst acc @ names"
proof (induction names arbitrary: acc)
  case Nil
  then show ?case by simp
next
  case (Cons name names)
  from Cons.prems(1) obtain m where
    b: "evaluate_all sr er t names (AList.update name m acc) = Inr all"
    by (auto split: option.splits sum.splits)
  have k: "map fst (AList.update name m acc) = map fst acc @ [name]"
    using Cons.prems(3) by (simp add: update_keys)
  have "set names \<inter> fst ` set (AList.update name m acc) = {}"
    using Cons.prems(2,3) by (auto simp: dom_update)
  from Cons.IH [OF b _ this] Cons.prems(2) k show ?case by simp
qed

lemma max_loop_first_max:
  assumes "\<forall>p\<in>set (best # xs). \<exists>u. total_score (snd p) = Finite u"
  shows "\<exists>pre post t. best # xs = pre @ max_loop best xs # post
           \<and> total_score (snd (max_loop best xs)) = Finite t
           \<and> (\<forall>p\<in>set pre. \<exists>u. total_score (snd p) = Finite u \<and> u < t)
           \<and> (\<forall>p\<in>set post. \<exists>u. total_score (snd p) = Finite u \<and> u \<le> t)"
  using assms
proof (induction xs arbitrary: best)
  case Nil
  then obtain u where "total_score (snd best) = Finite u" by auto
  moreover have "[best] = [] @ best # []" by simp
  ultimately show ?case
    by (metis empty_iff empty_set max_loop.simps(1))
next
  case (Cons x xs)
  obtain b where b: "total_score (snd best) = Finite b" using Cons.prems by auto
  obtain c where c: "total_score (snd x) = Finite c" using Cons.prems by auto
  show ?case
  proof (cases "b < c")
    case True
    then have step: "max_loop best (x # xs) = max_loop x xs" using b c by simp
    have "\<forall>p\<in>set (x # xs). \<exists>u. total_score (snd p) = Finite u" using Cons.prems by simp
    from Cons.IH [OF this] obtain pre post t where
      d: "x # xs = pre @ max_loop x xs # post"
         "total_score (snd (max_loop x xs)) = Finite t"
         "\<forall>p\<in>set pre. \<exists>u. total_score (snd p) = Finite u \<and> u < t"
         "\<forall>p\<in>set post. \<exists>u. total_score (snd p) = Finite u \<and> u \<le> t"
      by blast
    have "c \<le> t"
    proof (cases pre)
      case Nil
      with d(1) have "max_loop x xs = x" by (metis append_Nil list.inject)
      with d(2) c show ?thesis by simp
    next
      case (Cons y ys)
      with d(1) have "x \<in> set pre" by simp
      with d(3) c show ?thesis by fastforce
    qed
    with True have "b < t" by simp
    with b d(3) have "\<forall>p\<in>set (best # pre). \<exists>u. total_score (snd p) = Finite u \<and> u < t"
      by simp
    moreover have "best # x # xs = (best # pre) @ max_loop x xs # post" using d(1) by simp
    ultimately show ?thesis using d(2,4) step by metis
  next
    case False
    then have step: "max_loop best (x # xs) = max_loop best xs" using b c by simp
    have "\<forall>p\<in>set (best # xs). \<exists>u. total_score (snd p) = Finite u" using Cons.prems by simp
    from Cons.IH [OF this] obtain pre post t where
      d: "best # xs = pre @ max_loop best xs # post"
         "total_score (snd (max_loop best xs)) = Finite t"
         "\<forall>p\<in>set pre. \<exists>u. total_score (snd p) = Finite u \<and> u < t"
         "\<forall>p\<in>set post. \<exists>u. total_score (snd p) = Finite u \<and> u \<le> t"
      by blast
    show ?thesis
    proof (cases pre)
      case Nil
      with d(1) have e: "max_loop best xs = best" "post = xs"
        by (metis append_Nil list.inject)+
      with d(2) b have "t = b" by simp
      with False c have "\<exists>u. total_score (snd x) = Finite u \<and> u \<le> t" by simp
      with d(4) e have "\<forall>p\<in>set (x # xs). \<exists>u. total_score (snd p) = Finite u \<and> u \<le> t" by simp
      moreover have "best # x # xs = [] @ max_loop best (x # xs) # (x # xs)"
        using step e by simp
      ultimately show ?thesis using d(2) step by (metis empty_iff empty_set)
    next
      case (Cons y ys)
      with d(1) have e: "y = best" "xs = ys @ max_loop best xs # post"
        by (metis append_Cons list.inject)+
      with d(3) Cons b have "b < t" by fastforce
      with False c have "\<exists>u. total_score (snd x) = Finite u \<and> u < t" by simp
      with d(3) Cons e have
        "\<forall>p\<in>set (best # x # ys). \<exists>u. total_score (snd p) = Finite u \<and> u < t" by simp
      moreover have "best # x # xs = (best # x # ys) @ max_loop best (x # xs) # post"
        using e(2) step by simp
      ultimately show ?thesis using d(2,4) step by metis
    qed
  qed
qed

lemma select_best_example:
  "select_best_strategy example_strategy_results example_embedding_results ''ab cd'' =
     Inr (''sentence_based'', example_metrics ''sentence_based'' 2 (4 / 5) (16 / 25),
          [(''fixed_size'', example_metrics ''fixed_size'' 1 (2 / 5) (13 / 25)),
           (''sentence_based'', example_metrics ''sentence_based'' 2 (4 / 5) (16 / 25)),
           (''paragraph_based'', example_metrics ''paragraph_based'' 2 (4 / 5) (16 / 25))])"
  by (simp add: select_best_strategy_def example_strategy_results_def
      example_embedding_results_def example_metrics_def evaluate_defs max_by_total_score_def)

text \<open>
  Claim C1. When \<^verbatim>\<open>select_best_strategy\<close> returns, the metrics dictionary lists the
  strategies in the iteration order of the input dictionary, and the selected entry
  splits it into the entries before, which all score strictly less, and the entries
  after, which all score at most as much: the winner has the greatest total score and is
  the first one with it. In particular scores 0.9, 0.5, 0.9 for A, B, C select A. The
  input dictionary built by \<^verbatim>\<open>split_all_strategies\<close> has the keys \<^verbatim>\<open>fixed_size\<close>,
  \<^verbatim>\<open>sentence_based\<close>, \<^verbatim>\<open>paragraph_based\<close>, in this order.
\<close>

theorem select_best_strategy_first_max:
  "(select_best_strategy sr er t = Inr (bn, bm, all) \<longrightarrow>
      (distinct (map fst sr) \<longrightarrow> map fst all = map fst sr)
      \<and> (\<exists>pre post s. all = pre @ (bn, bm) # post \<and> total_score bm = Finite s
            \<and> (\<forall>p\<in>set pre. \<exists>u. total_score (snd p) = Finite u \<and> u < s)
            \<and> (\<forall>p\<in>set post. \<exists>u. total_score (snd p) = Finite u \<and> u \<le> s)))
   \<and> (total_score a = Finite 0.9 \<and> total_score b = Finite 0.5 \<and> total_score c = Finite 0.9 \<longrightarrow>
        max_by_total_score [(''A'', a), (''B'', b), (''C'', c)] = Inr (''A'', a))
   \<and> (split_all_strategies fuel t = Some (Inr sr') \<longrightarrow>
        map fst sr' = [''fixed_size'', ''sentence_based'', ''paragraph_based''])"
proof (intro conjI impI)
  assume "total_score a = Finite 0.9 \<and> total_score b = Finite 0.5 \<and> total_score c = Finite 0.9"
  then show "max_by_total_score [(''A'', a), (''B'', b), (''C'', c)] = Inr (''A'', a)"
    by (simp add: max_by_total_score_def)
next
  assume "split_all_strategies fuel t = Some (Inr sr')"
  then show "map fst sr' = [''fixed_size'', ''sentence_based'', ''paragraph_based'']"
    by (auto simp: split_all_strategies_def split: option.splits sum.splits)
next
  assume sel: "select_best_strategy sr er t = Inr (bn, bm, all)"
  then have ev: "evaluate_all sr er t (map fst sr) [] = Inr all"
    and mx: "max_by_total_score all = Inr (bn, bm)"
    by (auto simp: select_best_strategy_def split: sum.splits)
  {
    assume "distinct (map fst sr)"
    with evaluate_all_keys [OF ev] show "map fst all = map fst sr" by simp
  }
  from mx obtain x xs where all: "all = x # xs" and best: "max_loop x xs = (bn, bm)"
    by (auto simp: max_by_total_score_def split: list.splits)
  have "\<forall>p\<in>set all. evaluated sr er t p"
    using evaluate_all_entries [OF ev] by simp
  then have "\<forall>p\<in>set (x # xs). \<exists>u. total_score (snd p) = Finite u"
    unfolding all evaluated_def using evaluate_strategy_finite_score by blast
  from max_loop_first_max [OF this] best all
  show "\<exists>pre post s. all = pre @ (bn, bm) # post \<and> total_score bm = Finite s
            \<and> (\<forall>p\<in>set pre. \<exists>u. total_score (snd p) = Finite u \<and> u < s)
            \<and> (\<forall>p\<in>set post. \<exists>u. total_score (snd p) = Finite u \<and> u \<le> s)"
    by simp
qed

lemma split_all_example:
  "split_all_strategies 5 ''ab cd'' =
     Some (Inr [(''fixed_size'',
                 \<lparr>chunks = [''ab cd''], strategy = ''fixed_size_with_overlap'',
                  ChunkResult.num_chunks = 1, ChunkResult.avg_chunk_size = 5\<rparr>),
                (''sentence_based'',
                 \<lparr>chunks = [''ab cd''], strategy = ''sentence_based'',
                  ChunkResult.num_chunks = 1, ChunkResult.avg_chunk_size = 5\<rparr>),
                (''paragraph_based'',
                 \<lparr>chunks = [''ab cd''], strategy = ''paragraph_based'',
                  ChunkResult.num_chunks = 1, ChunkResult.avg_chunk_size = 5\<rparr>)])"
  by (simp add: split_all_strategies_def fixed_size_with_overlap_def sentence_based_splitting_def
      paragraph_based_splitting_def sentences_of_def py_range_def py_slice_def slice_index_def
      strip_def isspace_def terminator_def avg_size_of_def after_last_newline_def Let_def)

theorem select_best_strategy_first_max_witness:
  "select_best_strategy example_strategy_results example_embedding_results ''ab cd'' =
     Inr (''sentence_based'', example_metrics ''sentence_based'' 2 (4 / 5) (16 / 25),
          [(''fixed_size'', example_metrics ''fixed_size'' 1 (2 / 5) (13 / 25)),
           (''sentence_based'', example_metrics ''sentence_based'' 2 (4 / 5) (16 / 25)),
           (''paragraph_based'', example_metrics ''paragraph_based'' 2 (4 / 5) (16 / 25))])
   \<and> distinct (map fst example_strategy_results)
   \<and> map fst [(''fixed_size'', example_metrics ''fixed_size'' 1 (2 / 5) (13 / 25)),
           (''sentence_based'', example_metrics ''sentence_based'' 2 (4 / 5) (16 / 25)),
           (''paragraph_based'', example_metrics ''paragraph_based'' 2 (4 / 5) (16 / 25))]
       = map fst example_strategy_results
   \<and> (\<exists>pre post s.
         [(''fixed_size'', example_metrics ''fixed_size'' 1 (2 / 5) (13 / 25)),
          (''sentence_based'', example_metrics ''sentence_based'' 2 (4 / 5) (16 / 25)),
          (''paragraph_based'', example_metrics ''paragraph_based'' 2 (4 / 5) (16 / 25))]
           = pre @ (''sentence_based'', example_metrics ''sentence_based'' 2 (4 / 5) (16 / 25)) # post
         \<and> total_score (example_metrics ''sentence_based'' 2 (4 / 5) (16 / 25)) = Finite s
         \<and> (\<forall>p\<in>set pre. \<exists>u. total_score (snd p) = Finite u \<and> u < s)
         \<and> (\<forall>p\<in>set post. \<exists>u. total_score (snd p) = Finite u \<and> u \<le> s))
   \<and> total_score (example_metrics ''A'' 1 1 0.9) = Finite 0.9
   \<and> total_score (example_metrics ''B'' 1 1 0.5) = Finite 0.5
   \<and> total_score (example_metrics ''C'' 1 1 0.9) = Finite 0.9
   \<and> max_by_total_score [(''A'', example_metrics ''A'' 1 1 0.9), (''B'', example_metrics ''B'' 1 1 0.5),
                          (''C'', example_metrics ''C'' 1 1 0.9)]
       = Inr (''A'', example_metrics ''A'' 1 1 0.9)
   \<and> (\<exists>sr'. split_all_strategies 5 ''ab cd'' = Some (Inr sr')
         \<and> map fst sr' = [''fixed_size'', ''sentence_based'', ''paragraph_based''])"
  using select_best_strategy_first_max
          [of example_strategy_results example_embedding_results "''ab cd''" "''sentence_based''"
              "example_metrics ''sentence_based'' 2 (4 / 5) (16 / 25)"
              "[(''fixed_size'', example_metrics ''fixed_size'' 1 (2 / 5) (13 / 25)),
                (''sentence_based'', example_metrics ''sentence_based'' 2 (4 / 5) (16 / 25)),
                (''paragraph_based'', example_metrics ''paragraph_based'' 2 (4 / 5) (16 / 25))]"
              "example_metrics ''A'' 1 1 0.9" "example_metrics ''B'' 1 1 0.5"
              "example_metrics ''C'' 1 1 0.9" 5]
        select_best_example split_all_example
  by (simp add: example_strategy_results_def example_metrics_def)

lemma select_best_mismatched_example:
  "select_best_strategy mismatched_strategy_results mismatched_embedding_results ''ab cd'' =
     Inr (''fixed_size'', example_metrics ''fixed_size'' 2 (4 / 5) (16 / 25),
          [(''fixed_size'', example_metrics ''fixed_size'' 2 (4 / 5) (16 / 25)),
           (''sentence_based'', example_metrics ''sentence_based'' 2 (4 / 5) (16 / 25)),
           (''paragraph_based'', example_metrics ''paragraph_based'' 1 (2 / 5) (13 / 25))])"
  by (simp add: select_best_strategy_def mismatched_strategy_results_def
      mismatched_embedding_results_def example_metrics_def evaluate_defs max_by_total_score_def)

lemma select_best_aborting_example:
  "select_best_strategy aborting_strategy_results aborting_embedding_results ''ab cd'' =
     Inl ZeroDivisionError"
  by (simp add: select_best_strategy_def aborting_strategy_results_def
      aborting_embedding_results_def evaluate_defs)

lemma evaluate_all_aborts:
  assumes "n \<in> set names" "map_of sr n = Some cr" "er n = Some e"
    and "evaluate_strategy n (chunks cr) (embeddings e) t = Inl err"
  shows "\<exists>err'. evaluate_all sr er t names acc = Inl err'"
  using assms(1)
proof (induction names arbitrary: acc)
  case Nil
  then show ?case by simp
next
  case (Cons name names)
  show ?case
  proof (cases "name = n")
    case True
    with assms(2-4) show ?thesis by simp
  next
    case False
    with Cons.prems have "n \<in> set names" by simp
    from Cons.IH [OF this] show ?thesis
      by (auto split: option.splits sum.splits)
  qed
qed

lemma select_best_strategy_aborts:
  assumes "map_of sr n = Some cr" "er n = Some e"
    and "evaluate_strategy n (chunks cr) (embeddings e) t = Inl err"
  shows "\<exists>err'. select_best_strategy sr er t = Inl err'"
proof -
  from assms(1) have "n \<in> set (map fst sr)"
    by (metis map_of_SomeD image_eqI fst_conv set_map)
  with assms have "\<exists>err'. evaluate_all sr er t (map fst sr) [] = Inl err'"
    using evaluate_all_aborts [of n "map fst sr" sr cr er e t err "[]"] by blast
  then show ?thesis by (auto simp: select_best_strategy_def)
qed

text \<open>
  Claim C2, as amended. The evaluator never compares the number of chunks with the
  number of embeddings and has no error of its own for a difference. When they differ,
  and the chunk list and the original text are not empty and the similarity step accepts
  the embeddings, \<^verbatim>\<open>evaluate_strategy\<close> returns a metrics record: the chunk count, the
  two size statistics and the coverage come from the chunks, the average similarity from
  the embeddings alone. Whenever \<^verbatim>\<open>select_best_strategy\<close> returns, every entry of its
  metrics dictionary is the evaluation of that strategy's own chunks and embeddings.
  Whenever the evaluation of one strategy raises, \<^verbatim>\<open>select_best_strategy\<close> raises as a
  whole and returns metrics for no strategy.
\<close>

theorem evaluate_strategy_no_count_check:
  "(cs \<noteq> [] \<and> original_text \<noteq> [] \<and> length es \<noteq> length cs
      \<and> calculate_embedding_similarity es = Inr s \<longrightarrow>
      (\<exists>m. evaluate_strategy name cs es original_text = Inr m \<and> strategy_name m = name
          \<and> num_chunks m = length cs
          \<and> avg_chunk_size m = fst (calculate_chunk_statistics cs)
          \<and> chunk_size_std m = snd (calculate_chunk_statistics cs)
          \<and> coverage_score m
               = min 1 (real (sum_list (map length cs)) / real (length original_text))
          \<and> avg_similarity m = s))
   \<and> (select_best_strategy sr er original_text = Inr (bn, bm, all) \<longrightarrow>
        (\<forall>p\<in>set all. evaluated sr er original_text p))
   \<and> (map_of sr' n = Some cr \<and> er' n = Some e
        \<and> evaluate_strategy n (chunks cr) (embeddings e) original_text = Inl err \<longrightarrow>
        (\<exists>err'. select_best_strategy sr' er' original_text = Inl err'))"
proof (intro conjI impI)
  assume a: "cs \<noteq> [] \<and> original_text \<noteq> [] \<and> length es \<noteq> length cs
      \<and> calculate_embedding_similarity es = Inr s"
  then have "cs \<noteq> []" "original_text \<noteq> []" "calculate_embedding_similarity es = Inr s"
    by simp_all
  from evaluate_strategy_value [OF this, of name]
  show "\<exists>m. evaluate_strategy name cs es original_text = Inr m \<and> strategy_name m = name
          \<and> num_chunks m = length cs
          \<and> avg_chunk_size m = fst (calculate_chunk_statistics cs)
          \<and> chunk_size_std m = snd (calculate_chunk_statistics cs)
          \<and> coverage_score m
               = min 1 (real (sum_list (map length cs)) / real (length original_text))
          \<and> avg_similarity m = s"
    by auto
next
  assume "select_best_strategy sr er original_text = Inr (bn, bm, all)"
  then have "evaluate_all sr er original_text (map fst sr) [] = Inr all"
    by (auto simp: select_best_strategy_def split: sum.splits)
  from evaluate_all_entries [OF this] show "\<forall>p\<in>set all. evaluated sr er original_text p"
    by simp
next
  assume "map_of sr' n = Some cr \<and> er' n = Some e
        \<and> evaluate_strategy n (chunks cr) (embeddings e) original_text = Inl err"
  then show "\<exists>err'. select_best_strategy sr' er' original_text = Inl err'"
    using select_best_strategy_aborts [of sr' n cr er' e original_text err] by blast
qed

theorem evaluate_strategy_no_count_check_witness:
  "[''ab'', ''cd''] \<noteq> [] \<and> ''ab cd'' \<noteq> []
   \<and> length [[1, 0 :: real]] \<noteq> length [''ab'', ''cd'']
   \<and> calculate_embedding_similarity [[1, 0]] = Inr 0
   \<and> (\<exists>m. evaluate_strategy ''fixed_size'' [''ab'', ''cd''] [[1, 0]] ''ab cd'' = Inr m
          \<and> strategy_name m = ''fixed_size'' \<and> num_chunks m = 2
          \<and> avg_chunk_size m = Finite 2 \<and> chunk_size_std m = Finite 0
          \<and> coverage_score m = 4 / 5 \<and> avg_similarity m = 0)
   \<and> select_best_strategy mismatched_strategy_results mismatched_embedding_results ''ab cd'' =
       Inr (''fixed_size'', example_metrics ''fixed_size'' 2 (4 / 5) (16 / 25),
            [(''fixed_size'', example_metrics ''fixed_size'' 2 (4 / 5) (16 / 25)),
             (''sentence_based'', example_metrics ''sentence_based'' 2 (4 / 5) (16 / 25)),
             (''paragraph_based'', example_metrics ''paragraph_based'' 1 (2 / 5) (13 / 25))])
   \<and> list_all (evaluated mismatched_strategy_results mismatched_embedding_results ''ab cd'')
         [(''fixed_size'', example_metrics ''fixed_size'' 2 (4 / 5) (16 / 25)),
          (''sentence_based'', example_metrics ''sentence_based'' 2 (4 / 5) (16 / 25)),
          (''paragraph_based'', example_metrics ''paragraph_based'' 1 (2 / 5) (13 / 25))]
   \<and> map_of aborting_strategy_results ''paragraph_based'' =
       Some \<lparr>chunks = [], strategy = ''paragraph_based'',
             ChunkResult.num_chunks = 0, ChunkResult.avg_chunk_size = 0\<rparr>
   \<and> aborting_embedding_results ''paragraph_based'' =
       Some \<lparr>embeddings = [[1, 0]], EmbeddingResult.chunks = [],
             EmbeddingResult.strategy = ''paragraph_based'', dimension = 2, total_chunks = 0\<rparr>
   \<and> evaluate_strategy ''paragraph_based'' [] [[1, 0]] ''ab cd'' = Inl ZeroDivisionError
   \<and> select_best_strategy aborting_strategy_results aborting_embedding_results ''ab cd'' =
       Inl ZeroDivisionError"
  using evaluate_strategy_no_count_check
          [of "[''ab'', ''cd'']" "''ab cd''" "[[1, 0]]" 0 "''fixed_size''"
              mismatched_strategy_results mismatched_embedding_results
              "''fixed_size''" "example_metrics ''fixed_size'' 2 (4 / 5) (16 / 25)"
              "[(''fixed_size'', example_metrics ''fixed_size'' 2 (4 / 5) (16 / 25)),
                (''sentence_based'', example_metrics ''sentence_based'' 2 (4 / 5) (16 / 25)),
                (''paragraph_based'', example_metrics ''paragraph_based'' 1 (2 / 5) (13 / 25))]"
              aborting_strategy_results "''paragraph_based''"
              "\<lparr>chunks = [], strategy = ''paragraph_based'',
                ChunkResult.num_chunks = 0, ChunkResult.avg_chunk_size = 0\<rparr>"
              aborting_embedding_results
              "\<lparr>embeddings = [[1, 0]], EmbeddingResult.chunks = [],
                EmbeddingResult.strategy = ''paragraph_based'', dimension = 2, total_chunks = 0\<rparr>"
              ZeroDivisionError]
        select_best_mismatched_example select_best_aborting_example
  by (simp add: evaluate_defs aborting_strategy_results_def aborting_embedding_results_def)

theorem count_mismatch_counterexample:
  "length [[1 :: real]] \<noteq> length [''a'', ''b'']
   \<and> evaluate_strategy ''fixed_size'' [''a'', ''b''] [[1]] ''ab'' =
       Inr \<lparr>strategy_name = ''fixed_size'', num_chunks = 2, avg_chunk_size = Finite 1,
            chunk_size_std = Finite 0, avg_similarity = 0, coverage_score = 1,
            total_score = Finite (7 / 10)\<rparr>
   \<and> length [[1, 0 :: real]] \<noteq> length ([] :: string list)
   \<and> map_of aborting_strategy_results ''paragraph_based'' =
       Some \<lparr>chunks = [], strategy = ''paragraph_based'',
             ChunkResult.num_chunks = 0, ChunkResult.avg_chunk_size = 0\<rparr>
   \<and> aborting_embedding_results ''paragraph_based'' =
       Some \<lparr>embeddings = [[1, 0]], EmbeddingResult.chunks = [],
             EmbeddingResult.strategy = ''paragraph_based'', dimension = 2, total_chunks = 0\<rparr>
   \<and> evaluate_strategy ''fixed_size'' [''ab'', ''cd''] [[1, 0], [0, 1]] ''ab cd'' =
       Inr (example_metrics ''fixed_size'' 2 (4 / 5) (16 / 25))
   \<and> evaluate_strategy ''sentence_based'' [''ab'', ''cd''] [[1, 0], [0, 1]] ''ab cd'' =
       Inr (example_metrics ''sentence_based'' 2 (4 / 5) (16 / 25))
   \<and> select_best_strategy aborting_strategy_results aborting_embedding_results ''ab cd'' =
       Inl ZeroDivisionError"
  by (simp add: evaluate_defs select_best_strategy_def aborting_strategy_results_def
      aborting_embedding_results_def example_metrics_def)

end
